theory Spec2Isabelle
  imports Main
begin

section \<open>Values, exceptions and objects of the snippets\<close>

text \<open>
  The two files \<^verbatim>\<open>solid.py\<close> and \<^verbatim>\<open>solid/talk.py\<close> hold small Python classes.
  Their methods read and assign attributes of \<^verbatim>\<open>self\<close>, compare and add them, call
  other objects and raise exceptions. The values that occur are \<^verbatim>\<open>None\<close>, booleans,
  integers, strings and references to classes (floating-point numbers are left out);
  a class is referred to by its name.

  Neither file runs as a whole: each has lines that do not parse, and class statements
  whose base class is bound nowhere. A snippet is therefore modelled on its own, the way
  the talk presents it: what a call of the method does on an instance of the class.

  An exception carries a string: the message for \<^verbatim>\<open>Exception\<close> and \<^verbatim>\<open>BaseException\<close>, the
  name that was not found for \<^verbatim>\<open>NameError\<close> and \<^verbatim>\<open>AttributeError\<close>, the operator or the
  function that refused its arguments for \<^verbatim>\<open>TypeError\<close>.
\<close>

datatype pyval = PNone | PBool bool | PInt int | PStr string | PClass string

datatype pyexn =
    Exception string
  | BaseException string
  | NameError string
  | AttributeError string
  | TypeError string

text \<open>An instance is its \<^verbatim>\<open>__dict__\<close>: a finite map from attribute names to values.\<close>

type_synonym obj = "string \<rightharpoonup> pyval"

text \<open>
  A method call returns a value or raises, and leaves a state behind in both cases:
  the first component is the outcome (\<open>Inl\<close> the exception), the second the state.
\<close>

type_synonym ('a, 's) outcome = "(pyexn + 'a) \<times> 's"

text \<open>
  \<^verbatim>\<open>self.name\<close>: the instance dictionary first, then the attributes of the class,
  otherwise \<^verbatim>\<open>AttributeError\<close>.
\<close>

definition getattr :: "(string \<rightharpoonup> pyval) \<Rightarrow> obj \<Rightarrow> string \<Rightarrow> pyexn + pyval" where
  "getattr cls self n =
     (case self n of
        Some v \<Rightarrow> Inr v
      | None \<Rightarrow> (case cls n of Some v \<Rightarrow> Inr v | None \<Rightarrow> Inl (AttributeError n)))"

text \<open>Booleans are integers in Python: \<^verbatim>\<open>True == 1\<close> and \<^verbatim>\<open>True + True == 2\<close>.\<close>

fun py_num :: "pyval \<Rightarrow> int option" where
  "py_num (PInt i) = Some i"
| "py_num (PBool b) = Some (if b then 1 else 0)"
| "py_num _ = None"

definition py_eq :: "pyval \<Rightarrow> pyval \<Rightarrow> bool" where
  "py_eq a b =
     (case (py_num a, py_num b) of
        (Some i, Some j) \<Rightarrow> i = j
      | _ \<Rightarrow> a = b)"

fun truthy :: "pyval \<Rightarrow> bool" where
  "truthy PNone = False"
| "truthy (PBool b) = b"
| "truthy (PInt i) = (i \<noteq> 0)"
| "truthy (PStr s) = (s \<noteq> [])"
| "truthy (PClass c) = True"

definition py_add :: "pyval \<Rightarrow> pyval \<Rightarrow> pyexn + pyval" where
  "py_add a b =
     (case (py_num a, py_num b) of
        (Some i, Some j) \<Rightarrow> Inr (PInt (i + j))
      | _ \<Rightarrow> (case (a, b) of
                (PStr s, PStr t) \<Rightarrow> Inr (PStr (s @ t))
              | _ \<Rightarrow> Inl (TypeError ''+'')))"

definition py_sub :: "pyval \<Rightarrow> pyval \<Rightarrow> pyexn + pyval" where
  "py_sub a b =
     (case (py_num a, py_num b) of
        (Some i, Some j) \<Rightarrow> Inr (PInt (i - j))
      | _ \<Rightarrow> Inl (TypeError ''-''))"

text \<open>\<^verbatim>\<open>s * n\<close> repeats a string; a count below one gives the empty string.\<close>

definition py_mul :: "pyval \<Rightarrow> pyval \<Rightarrow> pyexn + pyval" where
  "py_mul a b =
     (case (py_num a, py_num b) of
        (Some i, Some j) \<Rightarrow> Inr (PInt (i * j))
      | (None, Some j) \<Rightarrow>
          (case a of PStr s \<Rightarrow> Inr (PStr (concat (replicate (nat j) s)))
                   | _ \<Rightarrow> Inl (TypeError ''*''))
      | (Some i, None) \<Rightarrow>
          (case b of PStr s \<Rightarrow> Inr (PStr (concat (replicate (nat i) s)))
                   | _ \<Rightarrow> Inl (TypeError ''*''))
      | _ \<Rightarrow> Inl (TypeError ''*''))"

text \<open>Sequencing of two evaluations that may raise; the first exception wins.\<close>

definition bind2 ::
  "(pyexn + pyval) \<Rightarrow> (pyexn + pyval) \<Rightarrow> (pyval \<Rightarrow> pyval \<Rightarrow> pyexn + pyval) \<Rightarrow> pyexn + pyval" where
  "bind2 a b f =
     (case a of
        Inl e \<Rightarrow> Inl e
      | Inr x \<Rightarrow> (case b of Inl e \<Rightarrow> Inl e | Inr y \<Rightarrow> f x y))"

text \<open>
  An expression statement \<^verbatim>\<open>f(...)\<close> that ends a method: the value of the call is
  dropped and the method returns \<^verbatim>\<open>None\<close>; an exception passes through.
\<close>

definition expr_stmt :: "('a, 's) outcome \<Rightarrow> (pyval, 's) outcome" where
  "expr_stmt r = (case r of (Inl e, s) \<Rightarrow> (Inl e, s) | (Inr _, s) \<Rightarrow> (Inr PNone, s))"

section \<open>Liskov substitution, problem 2: tasks (\<^verbatim>\<open>solid.py\<close> 186-198, \<^verbatim>\<open>talk.py\<close> 337-350)\<close>

text \<open>
  \<^verbatim>\<open>
  class Task(object):
      status = None

      def close(self):
          self.status = 'CLOSED'
  \<close>
  The class body is the same in both files.
\<close>

definition Task_attrs :: "string \<rightharpoonup> pyval" where
  "Task_attrs = [''status'' \<mapsto> PNone]"

definition Task_close :: "obj \<Rightarrow> (pyval, obj) outcome" where
  "Task_close self = (Inr PNone, self(''status'' \<mapsto> PStr ''CLOSED''))"

text \<open>
  \<^verbatim>\<open>
  class ProjectTask(Task):
      def close(self):
          if self.status == 'STARTED':
              raise Exception("Cannot close Task")
          super().close()
  \<close>
  (\<^verbatim>\<open>talk.py\<close>). \<^verbatim>\<open>super()\<close> is bound to the class \<^verbatim>\<open>Task\<close> that was the base when
  \<^verbatim>\<open>ProjectTask\<close> was created, the one above.
\<close>

definition ProjectTask_close :: "obj \<Rightarrow> (pyval, obj) outcome" where
  "ProjectTask_close self =
     (case getattr Task_attrs self ''status'' of
        Inl e \<Rightarrow> (Inl e, self)
      | Inr st \<Rightarrow>
          if py_eq st (PStr ''STARTED'')
          then (Inl (Exception ''Cannot close Task''), self)
          else expr_stmt (Task_close self))"

text \<open>
  The solution version (\<^verbatim>\<open>talk.py\<close> 354-370):
  \<^verbatim>\<open>
  class Task(object):
      status = None

      def can_close(self):
          return True

      def close(self):
          if self.can_close():
              self.status = 'CLOSED'
          raise Exception("Cannot close Task") # exception expected on supertype

  class BasicTask(Task):
      pass

  class ProjectTask(Task):
      def can_close(self):
          return self.status == 'STARTED'
  \<close>
  \<^verbatim>\<open>self.can_close()\<close> is dispatched on the class of \<^verbatim>\<open>self\<close>, so \<open>close\<close> takes
  the \<open>can_close\<close> of that class as a parameter.
\<close>

definition Task_can_close :: "obj \<Rightarrow> (pyval, obj) outcome" where
  "Task_can_close self = (Inr (PBool True), self)"

definition ProjectTask_can_close :: "obj \<Rightarrow> (pyval, obj) outcome" where
  "ProjectTask_can_close self =
     (case getattr Task_attrs self ''status'' of
        Inl e \<Rightarrow> (Inl e, self)
      | Inr st \<Rightarrow> (Inr (PBool (py_eq st (PStr ''STARTED''))), self))"

definition Task_close_solution ::
  "(obj \<Rightarrow> (pyval, obj) outcome) \<Rightarrow> obj \<Rightarrow> (pyval, obj) outcome" where
  "Task_close_solution can_close self =
     (case can_close self of
        (Inl e, self1) \<Rightarrow> (Inl e, self1)
      | (Inr c, self1) \<Rightarrow>
          (Inl (Exception ''Cannot close Task''),
           if truthy c then self1(''status'' \<mapsto> PStr ''CLOSED'') else self1))"

datatype task_class = Task | BasicTask | ProjectTask

fun can_close_of :: "task_class \<Rightarrow> obj \<Rightarrow> (pyval, obj) outcome" where
  "can_close_of Task = Task_can_close"
| "can_close_of BasicTask = Task_can_close"
| "can_close_of ProjectTask = ProjectTask_can_close"

definition close_of :: "task_class \<Rightarrow> obj \<Rightarrow> (pyval, obj) outcome" where
  "close_of c = Task_close_solution (can_close_of c)"

section \<open>Arithmetic one-liners\<close>

text \<open>
  Open/closed, solution 1 (\<^verbatim>\<open>solid.py\<close> 82-93, \<^verbatim>\<open>talk.py\<close> 130-141, the same text):
  \<^verbatim>\<open>
  class Operation(object):
      def __init__(self, x, y):
          self.x = x
          self.y = y

  class Addition(Operation):
      def peform_operation(self):
          return self.x + self.y

  class Subtraction(Operation):
      def peform_operation(self):
          return self.x - self.y
  \<close>
  The classes have no class attributes, so a field that was never assigned is an
  \<^verbatim>\<open>AttributeError\<close>. The operands are evaluated left to right.
\<close>

definition Operation_attrs :: "string \<rightharpoonup> pyval" where
  "Operation_attrs = Map.empty"

definition Operation_init :: "obj \<Rightarrow> pyval \<Rightarrow> pyval \<Rightarrow> (pyval, obj) outcome" where
  "Operation_init self x y = (Inr PNone, self(''x'' \<mapsto> x, ''y'' \<mapsto> y))"

definition Addition_peform_operation :: "obj \<Rightarrow> (pyval, obj) outcome" where
  "Addition_peform_operation self =
     (bind2 (getattr Operation_attrs self ''x'') (getattr Operation_attrs self ''y'') py_add, self)"

definition Subtraction_peform_operation :: "obj \<Rightarrow> (pyval, obj) outcome" where
  "Subtraction_peform_operation self =
     (bind2 (getattr Operation_attrs self ''x'') (getattr Operation_attrs self ''y'') py_sub, self)"

text \<open>
  Liskov substitution, solution 1 of \<^verbatim>\<open>solid.py\<close> (170-172):
  \<^verbatim>\<open>
  class Shape(object):
      def get_perimeter(self):
          return self.x * 2 + self.y * 2
  \<close>
\<close>

definition Shape_attrs :: "string \<rightharpoonup> pyval" where
  "Shape_attrs = Map.empty"

definition Shape_get_perimeter :: "obj \<Rightarrow> (pyval, obj) outcome" where
  "Shape_get_perimeter self =
     (bind2 (bind2 (getattr Shape_attrs self ''x'') (Inr (PInt 2)) py_mul)
            (bind2 (getattr Shape_attrs self ''y'') (Inr (PInt 2)) py_mul)
            py_add,
      self)"

text \<open>
  Liskov substitution, solution 1 of \<^verbatim>\<open>talk.py\<close> (302-319):
  \<^verbatim>\<open>
  class Quadrilateral(object):
      x1 = None
      x2 = None
      y1 = None
      y2 = None
      width = None
      height = None

      def set_x1(self, x1):
          self.x1 = x1

      # ...

      def get_width(self):
          return self.x2 - self.x1

      def get_height(self):
          return self.y2 - self.y1
  \<close>
\<close>

definition Quadrilateral_attrs :: "string \<rightharpoonup> pyval" where
  "Quadrilateral_attrs =
     [''x1'' \<mapsto> PNone, ''x2'' \<mapsto> PNone, ''y1'' \<mapsto> PNone, ''y2'' \<mapsto> PNone,
      ''width'' \<mapsto> PNone, ''height'' \<mapsto> PNone]"

definition Quadrilateral_set_x1 :: "obj \<Rightarrow> pyval \<Rightarrow> (pyval, obj) outcome" where
  "Quadrilateral_set_x1 self x1 = (Inr PNone, self(''x1'' \<mapsto> x1))"

definition Quadrilateral_get_width :: "obj \<Rightarrow> (pyval, obj) outcome" where
  "Quadrilateral_get_width self =
     (bind2 (getattr Quadrilateral_attrs self ''x2'') (getattr Quadrilateral_attrs self ''x1'') py_sub,
      self)"

definition Quadrilateral_get_height :: "obj \<Rightarrow> (pyval, obj) outcome" where
  "Quadrilateral_get_height self =
     (bind2 (getattr Quadrilateral_attrs self ''y2'') (getattr Quadrilateral_attrs self ''y1'') py_sub,
      self)"

section \<open>Calls into other objects and into the module's global names\<close>

text \<open>
  What a call does to the world is not fixed by the snippets: a callable is any function
  from the arguments and the state to an outcome. An object handed to a snippet from
  outside is the table of its methods; a method it has not is an \<^verbatim>\<open>AttributeError\<close>.
  A global name is looked up in an environment; a name it does not bind is a
  \<^verbatim>\<open>NameError\<close>.
\<close>

type_synonym 's callable = "pyval list \<Rightarrow> 's \<Rightarrow> (pyval, 's) outcome"

type_synonym 's pyobject = "string \<rightharpoonup> 's callable"

type_synonym 's genv = "string \<rightharpoonup> 's callable"

definition call_method :: "'s pyobject \<Rightarrow> string \<Rightarrow> pyval list \<Rightarrow> 's \<Rightarrow> (pyval, 's) outcome" where
  "call_method ob m args s =
     (case ob m of None \<Rightarrow> (Inl (AttributeError m), s) | Some f \<Rightarrow> f args s)"

definition load_global :: "'s genv \<Rightarrow> string \<Rightarrow> pyexn + 's callable" where
  "load_global g n = (case g n of None \<Rightarrow> Inl (NameError n) | Some f \<Rightarrow> Inr f)"

section \<open>Dependency inversion, problem 2 and solution 2: the button\<close>

text \<open>
  \<^verbatim>\<open>solid.py\<close> 319-331 and \<^verbatim>\<open>talk.py\<close> 531-543, the same text:
  \<^verbatim>\<open>
  class Button(object):
      def __init__(self, lamp):
          self.lamp = lamp # What is the target object?

      def get_physical_state(self):
          pass

      def detect(self):
          button_on = self.get_physical_state()
          if button_on:
              self.lamp.turn_on()
          else:
              self.lamp.turn_off()
  \<close>
  and \<^verbatim>\<open>solid.py\<close> 341-353, \<^verbatim>\<open>talk.py\<close> 555-567, the same text:
  \<^verbatim>\<open>
  class Button(object):
      def __init__(self, button_client):
          self.button_client = button_client

      def detect(self):
          button_on = self.get_state()
          if button_on:
              self.button_client.turn_on()
          else:
              self.button_client.turn_off()

      def get_state(self):
          pass
  \<close>
  A method whose body is \<^verbatim>\<open>pass\<close> returns \<^verbatim>\<open>None\<close>.
\<close>

record 's LampButton =
  lamp :: "'s pyobject"

record 's Button =
  button_client :: "'s pyobject"

definition Button_get_physical_state :: "'s LampButton \<Rightarrow> 's \<Rightarrow> (pyval, 's) outcome" where
  "Button_get_physical_state self s = (Inr PNone, s)"

definition LampButton_detect :: "'s LampButton \<Rightarrow> 's \<Rightarrow> (pyval, 's) outcome" where
  "LampButton_detect self s =
     (case Button_get_physical_state self s of
        (Inl e, s1) \<Rightarrow> (Inl e, s1)
      | (Inr button_on, s1) \<Rightarrow>
          if truthy button_on
          then expr_stmt (call_method (lamp self) ''turn_on'' [] s1)
          else expr_stmt (call_method (lamp self) ''turn_off'' [] s1))"

definition Button_get_state :: "'s Button \<Rightarrow> 's \<Rightarrow> (pyval, 's) outcome" where
  "Button_get_state self s = (Inr PNone, s)"

definition Button_detect :: "'s Button \<Rightarrow> 's \<Rightarrow> (pyval, 's) outcome" where
  "Button_detect self s =
     (case Button_get_state self s of
        (Inl e, s1) \<Rightarrow> (Inl e, s1)
      | (Inr button_on, s1) \<Rightarrow>
          if truthy button_on
          then expr_stmt (call_method (button_client self) ''turn_on'' [] s1)
          else expr_stmt (call_method (button_client self) ''turn_off'' [] s1))"

text \<open>A client that records the calls it receives, for concrete runs.\<close>

definition recording_client :: "(string list) pyobject" where
  "recording_client =
     [''turn_on'' \<mapsto> (\<lambda>args log. (Inr PNone, log @ [''turn_on''])),
      ''turn_off'' \<mapsto> (\<lambda>args log. (Inr PNone, log @ [''turn_off'']))]"

section \<open>Liskov substitution, problem 1 of \<^verbatim>\<open>talk.py\<close>: rectangle and square (276-294)\<close>

text \<open>
  \<^verbatim>\<open>
  class Rectangle(object):
      width = None
      height = None

      def set_width(self, w):
          self.width = w

      def set_height(self, h):
          self.height = h

  class Square(Rectangle):
      def set_width(self, w):
          self.width = w
          set_height(w)

      def set_height(self, h):
          self.height = h
          set_width(h)
  \<close>
  In \<^verbatim>\<open>Square\<close> the second statement of each method is a call of a bare name, not of
  \<^verbatim>\<open>self.set_height\<close>: the name is looked up among the globals. If it is bound there,
  the callable runs on the state left by the assignment.
\<close>

definition Rectangle_attrs :: "string \<rightharpoonup> pyval" where
  "Rectangle_attrs = [''width'' \<mapsto> PNone, ''height'' \<mapsto> PNone]"

definition Rectangle_set_width :: "obj \<Rightarrow> pyval \<Rightarrow> (pyval, obj) outcome" where
  "Rectangle_set_width self w = (Inr PNone, self(''width'' \<mapsto> w))"

definition Rectangle_set_height :: "obj \<Rightarrow> pyval \<Rightarrow> (pyval, obj) outcome" where
  "Rectangle_set_height self h = (Inr PNone, self(''height'' \<mapsto> h))"

definition Square_set_width :: "obj genv \<Rightarrow> obj \<Rightarrow> pyval \<Rightarrow> (pyval, obj) outcome" where
  "Square_set_width g self w =
     (let self1 = self(''width'' \<mapsto> w) in
      case load_global g ''set_height'' of
        Inl e \<Rightarrow> (Inl e, self1)
      | Inr f \<Rightarrow> expr_stmt (f [w] self1))"

definition Square_set_height :: "obj genv \<Rightarrow> obj \<Rightarrow> pyval \<Rightarrow> (pyval, obj) outcome" where
  "Square_set_height g self h =
     (let self1 = self(''height'' \<mapsto> h) in
      case load_global g ''set_width'' of
        Inl e \<Rightarrow> (Inl e, self1)
      | Inr f \<Rightarrow> expr_stmt (f [h] self1))"

section \<open>Dependency inversion, problem 1: the copy program\<close>

text \<open>
  \<^verbatim>\<open>solid.py\<close> 279-290 and \<^verbatim>\<open>talk.py\<close> 489-500, the same text:
  \<^verbatim>\<open>
  class CopyProgram(object):
      devices = {'printer': Printer, 'disk': Disk}

      def __init__(self, device):
          self.device = device

      def copy(self):
          with ReadKeyboard() as c:
              if self.device == self.devices.get('printer'):
                  WritePrinter(c)
              else:
                  WriteDisk(c)
  \<close>
  An instance is what \<^verbatim>\<open>__init__\<close> builds: the field \<open>device\<close>. The state \<open>'s\<close> is the
  world outside the object (keyboard, printer, disk); whatever acquires or writes a
  device changes it. The class attribute \<^verbatim>\<open>devices\<close> is the dictionary as written, with
  the two classes by name (\<^verbatim>\<open>Disk\<close> is bound in neither file, so the class statement
  itself cannot complete there; the method is modelled for any instance all the same).

  The \<^verbatim>\<open>with\<close> statement evaluates the manager, enters it, runs the body with the
  entered value and leaves the manager: after an exception of the body the manager's
  exit decides, by a true result, whether the exception is swallowed.
\<close>

record CopyProgram =
  device :: pyval

definition CopyProgram_devices :: "(string \<times> pyval) list" where
  "CopyProgram_devices = [(''printer'', PClass ''Printer''), (''disk'', PClass ''Disk'')]"

definition dict_get :: "(string \<times> pyval) list \<Rightarrow> string \<Rightarrow> pyval" where
  "dict_get d k = (case map_of d k of Some v \<Rightarrow> v | None \<Rightarrow> PNone)"

definition CopyProgram_init :: "pyval \<Rightarrow> CopyProgram" where
  "CopyProgram_init d = \<lparr>device = d\<rparr>"

record 's manager_protocol =
  cm_enter :: "pyval \<Rightarrow> 's \<Rightarrow> (pyval, 's) outcome"
  cm_exit :: "pyval \<Rightarrow> pyexn option \<Rightarrow> 's \<Rightarrow> (pyval, 's) outcome"

definition with_stmt ::
  "'s manager_protocol \<Rightarrow> (pyval, 's) outcome \<Rightarrow> (pyval \<Rightarrow> 's \<Rightarrow> (pyval, 's) outcome)
   \<Rightarrow> (pyval, 's) outcome" where
  "with_stmt p mgr_result body =
     (case mgr_result of
        (Inl e, s) \<Rightarrow> (Inl e, s)
      | (Inr mgr, s) \<Rightarrow>
          (case cm_enter p mgr s of
             (Inl e, s1) \<Rightarrow> (Inl e, s1)
           | (Inr c, s1) \<Rightarrow>
               (case body c s1 of
                  (Inl e, s2) \<Rightarrow>
                    (case cm_exit p mgr (Some e) s2 of
                       (Inl e', s3) \<Rightarrow> (Inl e', s3)
                     | (Inr r, s3) \<Rightarrow> if truthy r then (Inr PNone, s3) else (Inl e, s3))
                | (Inr _, s2) \<Rightarrow>
                    (case cm_exit p mgr None s2 of
                       (Inl e', s3) \<Rightarrow> (Inl e', s3)
                     | (Inr _, s3) \<Rightarrow> (Inr PNone, s3)))))"

definition CopyProgram_copy ::
  "'s genv \<Rightarrow> 's manager_protocol \<Rightarrow> CopyProgram \<Rightarrow> 's \<Rightarrow> (pyval, 's) outcome" where
  "CopyProgram_copy g p self s =
     (case load_global g ''ReadKeyboard'' of
        Inl e \<Rightarrow> (Inl e, s)
      | Inr read_keyboard \<Rightarrow>
          with_stmt p (read_keyboard [] s)
            (\<lambda>c s1.
               if py_eq (device self) (dict_get CopyProgram_devices ''printer'')
               then (case load_global g ''WritePrinter'' of
                       Inl e \<Rightarrow> (Inl e, s1)
                     | Inr write_printer \<Rightarrow> expr_stmt (write_printer [c] s1))
               else (case load_global g ''WriteDisk'' of
                       Inl e \<Rightarrow> (Inl e, s1)
                     | Inr write_disk \<Rightarrow> expr_stmt (write_disk [c] s1))))"

section \<open>Open/closed, solution 2: the report generator in the two files\<close>

text \<open>
  \<^verbatim>\<open>solid.py\<close> 136-141:
  \<^verbatim>\<open>
  class ReportGenerator(object):
      def __init__(self, printer):
          self.printer = printer

      def print(self, filename, ink_type):
          self.printer.print_file(filename)
  \<close>
  \<^verbatim>\<open>talk.py\<close> 184-189:
  \<^verbatim>\<open>
  class ReportGenerator(object):
      def __init__(self, printer):
          self.printer = printer

      def print(self, filename):
          self.printer.print_file(filename)
  \<close>
  The methods are given the list of the arguments of the call after \<^verbatim>\<open>self\<close>; a list
  of the wrong length is the \<^verbatim>\<open>TypeError\<close> of the call.
\<close>

record 's ReportGenerator =
  printer :: "'s pyobject"




section \<open>The class definitions of the two files, as written\<close>

text \<open>
  Some statements about the files are about their text: which classes a file defines,
  what shape a method body has, whether a snippet is the same in both files. For these
  the class definitions are transcribed as syntax trees, snippet by snippet, under the
  headings the files give them (the principle, then \<^verbatim>\<open>PROBLEM #n\<close> or \<^verbatim>\<open>SOLUTION #n\<close>).
  Comments are left out. A class body that is only \<^verbatim>\<open>pass\<close> is the empty list of
  members.
\<close>

datatype binop = Add | Sub | Mult | Eq

datatype expr =
    Name string
  | NoneC
  | TrueC
  | Str string
  | Num int
  | Attr expr string
  | Call expr "expr list"
  | BinOp expr binop expr
  | Dict "(expr \<times> expr) list"
  | GenExp expr string expr

text \<open>
  \<open>GenExp e x it\<close> is the generator \<^verbatim>\<open>e for x in it\<close>. \<open>Malformed s\<close> stands for lines that
  are not a statement of Python's grammar; \<open>s\<close> is how they read once the slip is
  repaired (\<^verbatim>\<open>else cond:\<close> read as \<^verbatim>\<open>elif cond:\<close>, a missing colon supplied).
\<close>

datatype stmt =
    Pass
  | Return expr
  | Assign expr expr
  | Expr expr
  | IfElse expr "stmt list" "stmt list"
  | Raise expr
  | With expr string "stmt list"
  | For string expr "stmt list"
  | Malformed stmt

datatype member =
    Attribute string expr
  | Method string "string list" "stmt list"

datatype item =
    Class string "string list" "member list"
  | Function string "string list" "stmt list"
  | ImportFrom string string

abbreviation Self :: expr where
  "Self \<equiv> Name ''self''"

subsection \<open>\<^verbatim>\<open>solid.py\<close>\<close>

definition solid_SRP_P1 :: "item list" where
  "solid_SRP_P1 =
     [Class ''Employee'' [''object'']
        [Method ''calculate_pay'' [''self'']
           [Return (Call (Attr Self ''calculate'') [])],
         Method ''report_hours'' [''self'', ''hours'']
           [Return (BinOp (Call (Attr Self ''calculate'') []) Mult (Name ''hours''))],
         Method ''save'' [''self''] [Pass],
         Method ''calculate'' [''self''] [Pass]]]"

definition solid_SRP_S1 :: "item list" where
  "solid_SRP_S1 =
     [Class ''PaymentCalculator'' [''object'']
        [Method ''calculate_pay'' [''self'', ''employee'']
           [Return (Call (Attr Self ''calculate'') [Name ''employee''])]],
      Class ''Reporter'' [''object'']
        [Method ''report_hours'' [''self'', ''employee'']
           [Return (Call (Attr Self ''calculate'') [Name ''employee''])]],
      Class ''EmployeeRepository'' [''object'']
        [Method ''save'' [''self'', ''employee''] [Pass]]]"

definition solid_OCP_P1 :: "item list" where
  "solid_OCP_P1 =
     [Class ''Operation'' [''object'']
        [Method ''__init__'' [''self'', ''x'', ''y'']
           [Assign (Attr Self ''x'') (Name ''x''),
            Assign (Attr Self ''y'') (Name ''y'')]],
      Class ''Addition'' [''Operation''] [],
      Class ''Subtraction'' [''Operation''] [],
      Class ''BasicCalculator'' [''Calculator'']
        [Method ''calculate'' [''self'', ''operation'']
           [IfElse (Call (Name ''isinstance'') [Name ''operation'', Name ''Addition''])
              [Return (BinOp (Attr (Name ''operation'') ''x'') Add (Attr (Name ''operation'') ''y''))]
              [IfElse (Call (Name ''isinstance'') [Name ''operation'', Name ''Subtraction''])
                 [Return (BinOp (Attr (Name ''operation'') ''x'') Sub (Attr (Name ''operation'') ''y''))]
                 []]]]]"

definition solid_OCP_S1 :: "item list" where
  "solid_OCP_S1 =
     [Class ''Operation'' [''object'']
        [Method ''__init__'' [''self'', ''x'', ''y'']
           [Assign (Attr Self ''x'') (Name ''x''),
            Assign (Attr Self ''y'') (Name ''y'')]],
      Class ''Addition'' [''Operation'']
        [Method ''peform_operation'' [''self'']
           [Return (BinOp (Attr Self ''x'') Add (Attr Self ''y''))]],
      Class ''Subtraction'' [''Operation'']
        [Method ''peform_operation'' [''self'']
           [Return (BinOp (Attr Self ''x'') Sub (Attr Self ''y''))]],
      Class ''BasicCalculator'' [''Calculator'']
        [Method ''calculate'' [''self'', ''operation'']
           [Return (Call (Attr (Name ''operation'') ''perform_operation'') [])]]]"

definition solid_OCP_P2 :: "item list" where
  "solid_OCP_P2 =
     [Class ''Printer'' [''object'']
        [Method ''print'' [''self'', ''filename''] [Pass]],
      Class ''ColorPrinter'' [''Printer'']
        [Method ''print'' [''self'', ''filename'']
           [Expr (Call (Attr (Name ''HPLASER'') ''print_file'') [Name ''filename''])]],
      Class ''BWPrinter'' [''Printer'']
        [Method ''print'' [''self'', ''filename'']
           [Expr (Call (Attr (Name ''HPINKJET'') ''print_file'') [Name ''filename''])]],
      Class ''ReportGenerator'' [''object'']
        [Method ''print'' [''self'', ''filename'', ''ink_type'']
           [Malformed
              (IfElse (BinOp (Name ''ink_type'') Eq (Str ''BLACK''))
                 [Expr (Call (Attr (Name ''BWPrinter'') ''print_file'') [Name ''filename''])]
                 [IfElse (BinOp (Name ''ink_type'') Eq (Str ''COLOR''))
                    [Expr (Call (Attr (Name ''ColorPrinter'') ''print_file'') [Name ''filename''])]
                    [Raise (Call (Name ''BaseException'')
                              [Str ''There is no printer for that type''])]])]]]"

definition solid_OCP_S2 :: "item list" where
  "solid_OCP_S2 =
     [Class ''Printer'' [''object'']
        [Method ''print'' [''self'', ''filename''] [Pass]],
      Class ''ColorPrinter'' [''Printer'']
        [Method ''print'' [''self'', ''filename'']
           [Expr (Call (Attr (Name ''HPLASER'') ''print_file'') [Name ''filename''])]],
      Class ''BWPrinter'' [''Printer'']
        [Method ''print'' [''self'', ''filename'']
           [Expr (Call (Attr (Name ''HPINKJET'') ''print_file'') [Name ''filename''])]],
      Class ''ReportGenerator'' [''object'']
        [Method ''__init__'' [''self'', ''printer'']
           [Assign (Attr Self ''printer'') (Name ''printer'')],
         Method ''print'' [''self'', ''filename'', ''ink_type'']
           [Expr (Call (Attr (Attr Self ''printer'') ''print_file'') [Name ''filename''])]]]"

definition solid_LSP_P1 :: "item list" where
  "solid_LSP_P1 =
     [Class ''Rectangle'' [''object''] [],
      Class ''Square'' [''Rectangle''] [],
      Class ''ShapeCalculator'' [''object'']
        [Method ''calculate_perimeter'' [''self'', ''shapes'']
           [Return (BinOp (BinOp (Call (Name ''len'') [Name ''shapes'']) Mult
                             (Attr (Name ''shapes'') ''x''))
                      Mult (Num 2))]]]"

definition solid_LSP_S1 :: "item list" where
  "solid_LSP_S1 =
     [Class ''Shape'' [''object'']
        [Method ''get_perimeter'' [''self'']
           [Return (BinOp (BinOp (Attr Self ''x'') Mult (Num 2)) Add
                      (BinOp (Attr Self ''y'') Mult (Num 2)))]],
      Class ''Rectangle'' [''Shape''] [],
      Class ''Square'' [''object''] [],
      Class ''ShapeCalculator'' [''object'']
        [Method ''calculate_perimeter'' [''self'', ''shapes'']
           [Return (Call (Name ''sum'')
                      [GenExp (Call (Attr (Name ''shape'') ''get_perimeter'') [])
                         ''shape'' (Name ''shapes'')])]]]"

definition solid_LSP_P2 :: "item list" where
  "solid_LSP_P2 =
     [Class ''Task'' [''object'']
        [Attribute ''status'' NoneC,
         Method ''close'' [''self'']
           [Assign (Attr Self ''status'') (Str ''CLOSED'')]],
      Class ''BasicTask'' [''Task''] [],
      Class ''ProjectTask'' [''Task'']
        [Method ''close'' [''self'']
           [Malformed
              (IfElse (BinOp (Attr Self ''status'') Eq (Str ''STARTED''))
                 [Raise (Call (Name ''Exception'')
                           [Str ''Cannot close a started Project Task''])]
                 [])]]]"

definition solid_ISP_P1 :: "item list" where
  "solid_ISP_P1 =
     [Class ''Charger'' [''object'']
        [Method ''charge_usb1'' [''self'']
           [Expr (Call (Attr (Name ''IOUSB1'') ''connect'') [Name ''phone''])],
         Method ''charge_usb2'' [''self'']
           [Expr (Call (Attr (Name ''IOUSB2'') ''connect'') [Name ''phone''])],
         Method ''charge_apple'' [''self'']
           [Expr (Call (Attr (Name ''IOAPPLE'') ''connect'') [Name ''phone''])]],
      Class ''AndroidCharger'' [''Charger''] [],
      Class ''AppleCharger'' [''Charger''] []]"

definition solid_ISP_S1 :: "item list" where
  "solid_ISP_S1 =
     [Class ''Charger'' [''object'']
        [Method ''connect'' [''self''] [Pass],
         Method ''disconnect'' [''self''] [Pass],
         Method ''charge'' [''self''] [Pass]],
      Class ''AndroidCharger'' [''object'']
        [Method ''connect'' [''self'']
           [Expr (Call (Attr (Name ''IOUSB2'') ''connect'') [Name ''phone''])]],
      Class ''AppleCharger'' [''object'']
        [Method ''connect'' [''self'']
           [Expr (Call (Attr (Name ''IOAPPLE'') ''connect'') [Name ''phone''])]]]"

definition solid_ISP_P2 :: "item list" where
  "solid_ISP_P2 =
     [Class ''CoffeeMachine'' [''object'']
        [Method ''brew_filter_coffee'' [''self''] [Pass],
         Method ''add_ground_coffee'' [''self''] [Pass],
         Method ''brew_espresso'' [''self''] [Pass]],
      Class ''BasicCoffeeMachine'' [''CoffeeMachine''] [],
      Class ''EspressoMachine'' [''CoffeeMachine''] []]"

definition solid_ISP_S2 :: "item list" where
  "solid_ISP_S2 =
     [Class ''CoffeeMachine'' [''object'']
        [Method ''add_ground_coffee'' [''self''] [Pass]],
      Class ''FilterCoffeeMachine'' [''CoffeeMachine'']
        [Method ''brew_filter_coffee'' [''self''] [Pass]],
      Class ''EspressoCoffeeMachine'' [''CoffeeMachine'']
        [Method ''brew_espresso'' [''self''] [Pass]],
      Class ''BasicCoffeeMachine'' [''FilterCoffeeMachine''] [],
      Class ''EspressoMachine'' [''EspressoCoffeeMachine''] []]"

definition solid_DIP_P1 :: "item list" where
  "solid_DIP_P1 =
     [Class ''CopyProgram'' [''object'']
        [Attribute ''devices''
           (Dict [(Str ''printer'', Name ''Printer''), (Str ''disk'', Name ''Disk'')]),
         Method ''__init__'' [''self'', ''device'']
           [Assign (Attr Self ''device'') (Name ''device'')],
         Method ''copy'' [''self'']
           [With (Call (Name ''ReadKeyboard'') []) ''c''
              [IfElse (BinOp (Attr Self ''device'') Eq
                     (Call (Attr (Attr Self ''devices'') ''get'') [Str ''printer'']))
                 [Expr (Call (Name ''WritePrinter'') [Name ''c''])]
                 [Expr (Call (Name ''WriteDisk'') [Name ''c''])]]]]]"

definition solid_DIP_S1 :: "item list" where
  "solid_DIP_S1 =
     [Class ''Reader'' [''object''] [],
      Class ''Writer'' [''object''] [],
      Class ''KeyboardReader'' [''object''] [],
      Class ''PrinterWriter'' [''object''] [],
      Class ''CopyProgram'' [''object'']
        [Method ''copy'' [''self'', ''reader'', ''writer'']
           [With (Call (Name ''reader'') []) ''c''
              [Expr (Call (Name ''writer'') [Name ''c''])]]]]"

definition solid_DIP_P2 :: "item list" where
  "solid_DIP_P2 =
     [Class ''Lamp'' [''object'']
        [Method ''turn_on'' [''self''] [Pass],
         Method ''turn_off'' [''self''] [Pass]],
      Class ''Button'' [''object'']
        [Method ''__init__'' [''self'', ''lamp'']
           [Assign (Attr Self ''lamp'') (Name ''lamp'')],
         Method ''get_physical_state'' [''self''] [Pass],
         Method ''detect'' [''self'']
           [Assign (Name ''button_on'') (Call (Attr Self ''get_physical_state'') []),
            IfElse (Name ''button_on'')
              [Expr (Call (Attr (Attr Self ''lamp'') ''turn_on'') [])]
              [Expr (Call (Attr (Attr Self ''lamp'') ''turn_off'') [])]]]]"

definition solid_DIP_S2 :: "item list" where
  "solid_DIP_S2 =
     [Class ''ButtonClient'' [''object'']
        [Method ''turn_on'' [''self''] [Pass],
         Method ''turn_off'' [''self''] [Pass]],
      Class ''Button'' [''object'']
        [Method ''__init__'' [''self'', ''button_client'']
           [Assign (Attr Self ''button_client'') (Name ''button_client'')],
         Method ''detect'' [''self'']
           [Assign (Name ''button_on'') (Call (Attr Self ''get_state'') []),
            IfElse (Name ''button_on'')
              [Expr (Call (Attr (Attr Self ''button_client'') ''turn_on'') [])]
              [Expr (Call (Attr (Attr Self ''button_client'') ''turn_off'') [])]],
         Method ''get_state'' [''self''] [Pass]],
      Class ''Lamp'' [''ButtonClient''] [],
      Class ''ButtonImp'' [''object''] []]"

text \<open>The file: its snippets in order, each under its heading.\<close>

definition solid_py :: "(string \<times> item list) list" where
  "solid_py =
     [(''SRP PROBLEM 1'', solid_SRP_P1),
      (''SRP SOLUTION 1'', solid_SRP_S1),
      (''OCP PROBLEM 1'', solid_OCP_P1),
      (''OCP SOLUTION 1'', solid_OCP_S1),
      (''OCP PROBLEM 2'', solid_OCP_P2),
      (''OCP SOLUTION 2'', solid_OCP_S2),
      (''LSP PROBLEM 1'', solid_LSP_P1),
      (''LSP SOLUTION 1'', solid_LSP_S1),
      (''LSP PROBLEM 2'', solid_LSP_P2),
      (''ISP PROBLEM 1'', solid_ISP_P1),
      (''ISP SOLUTION 1'', solid_ISP_S1),
      (''ISP PROBLEM 2'', solid_ISP_P2),
      (''ISP SOLUTION 2'', solid_ISP_S2),
      (''DIP PROBLEM 1'', solid_DIP_P1),
      (''DIP SOLUTION 1'', solid_DIP_S1),
      (''DIP PROBLEM 2'', solid_DIP_P2),
      (''DIP SOLUTION 2'', solid_DIP_S2)]"

subsection \<open>\<^verbatim>\<open>solid/talk.py\<close>\<close>

definition talk_SRP_P1 :: "item list" where
  "talk_SRP_P1 =
     [Class ''Employee'' [''object'']
        [Method ''calculate_pay'' [''self'']
           [Return (Call (Attr Self ''calculate'') [])],
         Method ''report_hours'' [''self'', ''hours'']
           [Return (BinOp (Call (Attr Self ''calculate'') []) Mult (Name ''hours''))],
         Method ''save'' [''self''] [Pass],
         Method ''calculate'' [''self''] [Pass]]]"

definition talk_SRP_S1 :: "item list" where
  "talk_SRP_S1 =
     [Class ''PaymentCalculator'' [''object'']
        [Method ''calculate_pay'' [''self'', ''employee'']
           [Return (Call (Attr Self ''calculate'') [Name ''employee''])]],
      Class ''Reporter'' [''object'']
        [Method ''report_hours'' [''self'', ''employee'']
           [Return (Call (Attr Self ''calculate'') [Name ''employee''])]],
      Class ''EmployeeRepository'' [''object'']
        [Method ''save'' [''self'', ''employee''] [Pass]]]"

definition talk_SRP_P2 :: "item list" where
  "talk_SRP_P2 =
     [Class ''Modem'' [''object'']
        [Method ''dial'' [''self'', ''pno''] [Pass],
         Method ''hangup'' [''self''] [Pass],
         Method ''send'' [''self'', ''c''] [Pass],
         Method ''recv'' [''self''] [Pass]]]"

definition talk_SRP_S2 :: "item list" where
  "talk_SRP_S2 =
     [ImportFrom ''abc'' ''ABC'',
      Class ''DataChannel'' [''ABC'']
        [Method ''send'' [''self'', ''c''] [Pass],
         Method ''recv'' [''self''] [Pass]],
      Class ''Connection'' [''ABC'']
        [Method ''dial'' [''self'', ''pno''] [Pass],
         Method ''hangup'' [''self''] [Pass]],
      Class ''Modem'' [''DataChannel'', ''Connection''] []]"

definition talk_OCP_P1 :: "item list" where
  "talk_OCP_P1 =
     [Class ''Operation'' [''object'']
        [Method ''__init__'' [''self'', ''x'', ''y'']
           [Assign (Attr Self ''x'') (Name ''x''),
            Assign (Attr Self ''y'') (Name ''y'')]],
      Class ''Addition'' [''Operation''] [],
      Class ''Subtraction'' [''Operation''] [],
      Class ''BasicCalculator'' [''Calculator'']
        [Method ''calculate'' [''self'', ''operation'']
           [IfElse (Call (Name ''isinstance'') [Name ''operation'', Name ''Addition''])
              [Return (BinOp (Attr (Name ''operation'') ''x'') Add (Attr (Name ''operation'') ''y''))]
              [IfElse (Call (Name ''isinstance'') [Name ''operation'', Name ''Subtraction''])
                 [Return (BinOp (Attr (Name ''operation'') ''x'') Sub (Attr (Name ''operation'') ''y''))]
                 []]]]]"

definition talk_OCP_S1 :: "item list" where
  "talk_OCP_S1 =
     [Class ''Operation'' [''object'']
        [Method ''__init__'' [''self'', ''x'', ''y'']
           [Assign (Attr Self ''x'') (Name ''x''),
            Assign (Attr Self ''y'') (Name ''y'')]],
      Class ''Addition'' [''Operation'']
        [Method ''peform_operation'' [''self'']
           [Return (BinOp (Attr Self ''x'') Add (Attr Self ''y''))]],
      Class ''Subtraction'' [''Operation'']
        [Method ''peform_operation'' [''self'']
           [Return (BinOp (Attr Self ''x'') Sub (Attr Self ''y''))]],
      Class ''BasicCalculator'' [''Calculator'']
        [Method ''calculate'' [''self'', ''operation'']
           [Return (Call (Attr (Name ''operation'') ''perform_operation'') [])]]]"

definition talk_OCP_P2 :: "item list" where
  "talk_OCP_P2 =
     [Class ''Printer'' [''object'']
        [Method ''print'' [''self'', ''filename''] [Pass]],
      Class ''ColorPrinter'' [''Printer'']
        [Method ''print'' [''self'', ''filename'']
           [Expr (Call (Attr (Name ''HPLASER'') ''print_file'') [Name ''filename''])]],
      Class ''BWPrinter'' [''Printer'']
        [Method ''print'' [''self'', ''filename'']
           [Expr (Call (Attr (Name ''HPINKJET'') ''print_file'') [Name ''filename''])]],
      Class ''ReportGenerator'' [''object'']
        [Method ''print'' [''self'', ''filename'', ''ink_type'']
           [Malformed
              (IfElse (BinOp (Name ''ink_type'') Eq (Str ''BLACK''))
                 [Expr (Call (Attr (Name ''BWPrinter'') ''print_file'') [Name ''filename''])]
                 [IfElse (BinOp (Name ''ink_type'') Eq (Str ''COLOR''))
                    [Expr (Call (Attr (Name ''ColorPrinter'') ''print_file'') [Name ''filename''])]
                    [Raise (Call (Name ''BaseException'')
                              [Str ''There is no printer for that type''])]])]]]"

definition talk_OCP_S2 :: "item list" where
  "talk_OCP_S2 =
     [Class ''Printer'' [''object'']
        [Method ''print'' [''self'', ''filename''] [Pass]],
      Class ''ColorPrinter'' [''Printer'']
        [Method ''print'' [''self'', ''filename'']
           [Expr (Call (Attr (Name ''HPLASER'') ''print_file'') [Name ''filename''])]],
      Class ''BWPrinter'' [''Printer'']
        [Method ''print'' [''self'', ''filename'']
           [Expr (Call (Attr (Name ''HPINKJET'') ''print_file'') [Name ''filename''])]],
      Class ''ReportGenerator'' [''object'']
        [Method ''__init__'' [''self'', ''printer'']
           [Assign (Attr Self ''printer'') (Name ''printer'')],
         Method ''print'' [''self'', ''filename'']
           [Expr (Call (Attr (Attr Self ''printer'') ''print_file'') [Name ''filename''])]]]"

definition talk_OCP_P3 :: "item list" where
  "talk_OCP_P3 =
     [Class ''Circle'' [''object''] [],
      Class ''Square'' [''object''] [],
      Function ''draw_all_shapes'' [''shapes'']
        [For ''shape'' (Name ''shapes'')
           [IfElse (Call (Name ''isinstance'') [Name ''shape'', Name ''Square''])
              [Expr (Call (Name ''draw_square'') [Name ''shape''])]
              [],
            IfElse (Call (Name ''isinstance'') [Name ''shape'', Name ''Circle''])
              [Expr (Call (Name ''draw_circle'') [Name ''shape''])]
              []]]]"

definition talk_OCP_S3 :: "item list" where
  "talk_OCP_S3 =
     [Class ''Shape'' [''object'']
        [Method ''draw'' [''self''] [Pass]],
      Class ''Circle'' [''Shape''] [],
      Class ''Square'' [''Shape''] [],
      Function ''draw_all_shapes'' [''shapes'']
        [For ''shape'' (Name ''shapes'')
           [Expr (Call (Attr (Name ''shape'') ''draw'') [])]]]"

definition talk_LSP_P1 :: "item list" where
  "talk_LSP_P1 =
     [Class ''Rectangle'' [''object'']
        [Attribute ''width'' NoneC,
         Attribute ''height'' NoneC,
         Method ''set_width'' [''self'', ''w'']
           [Assign (Attr Self ''width'') (Name ''w'')],
         Method ''set_height'' [''self'', ''h'']
           [Assign (Attr Self ''height'') (Name ''h'')]],
      Class ''Square'' [''Rectangle'']
        [Method ''set_width'' [''self'', ''w'']
           [Assign (Attr Self ''width'') (Name ''w''),
            Expr (Call (Name ''set_height'') [Name ''w''])],
         Method ''set_height'' [''self'', ''h'']
           [Assign (Attr Self ''height'') (Name ''h''),
            Expr (Call (Name ''set_width'') [Name ''h''])]],
      Function ''g'' [''rectangle'']
        [Expr (Call (Attr (Name ''rectangle'') ''set_width'') [Num 5]),
         Expr (Call (Attr (Name ''rectangle'') ''set_height'') [Num 3])]]"

definition talk_LSP_S1 :: "item list" where
  "talk_LSP_S1 =
     [Class ''Quadrilateral'' [''object'']
        [Attribute ''x1'' NoneC,
         Attribute ''x2'' NoneC,
         Attribute ''y1'' NoneC,
         Attribute ''y2'' NoneC,
         Attribute ''width'' NoneC,
         Attribute ''height'' NoneC,
         Method ''set_x1'' [''self'', ''x1'']
           [Assign (Attr Self ''x1'') (Name ''x1'')],
         Method ''get_width'' [''self'']
           [Return (BinOp (Attr Self ''x2'') Sub (Attr Self ''x1''))],
         Method ''get_height'' [''self'']
           [Return (BinOp (Attr Self ''y2'') Sub (Attr Self ''y1''))]],
      Class ''Rectangle'' [''Quadrilateral''] [],
      Class ''Square'' [''Quadrilateral''] [],
      Function ''g'' [''rectangle'']
        [Expr (Call (Attr (Name ''rectangle'') ''set_x1'') [Num 10]),
         Expr (Call (Attr (Name ''rectangle'') ''set_x2'') [Num 5]),
         Expr (Call (Attr (Name ''rectangle'') ''set_y1'') [Num 6]),
         Expr (Call (Attr (Name ''rectangle'') ''set_y2'') [Num 3])]]"

definition talk_LSP_P2 :: "item list" where
  "talk_LSP_P2 =
     [Class ''Task'' [''object'']
        [Attribute ''status'' NoneC,
         Method ''close'' [''self'']
           [Assign (Attr Self ''status'') (Str ''CLOSED'')]],
      Class ''BasicTask'' [''Task''] [],
      Class ''ProjectTask'' [''Task'']
        [Method ''close'' [''self'']
           [IfElse (BinOp (Attr Self ''status'') Eq (Str ''STARTED''))
              [Raise (Call (Name ''Exception'') [Str ''Cannot close Task''])]
              [],
            Expr (Call (Attr (Call (Name ''super'') []) ''close'') [])]]]"

definition talk_LSP_S2 :: "item list" where
  "talk_LSP_S2 =
     [Class ''Task'' [''object'']
        [Attribute ''status'' NoneC,
         Method ''can_close'' [''self''] [Return TrueC],
         Method ''close'' [''self'']
           [IfElse (Call (Attr Self ''can_close'') [])
              [Assign (Attr Self ''status'') (Str ''CLOSED'')]
              [],
            Raise (Call (Name ''Exception'') [Str ''Cannot close Task''])]],
      Class ''BasicTask'' [''Task''] [],
      Class ''ProjectTask'' [''Task'']
        [Method ''can_close'' [''self'']
           [Return (BinOp (Attr Self ''status'') Eq (Str ''STARTED''))]]]"

definition talk_LSP_P3 :: "item list" where
  "talk_LSP_P3 =
     [Class ''ImmutablePoint'' [''object'']
        [Method ''__init__'' [''self'', ''x'', ''y'']
           [Assign (Attr Self ''x'') (Name ''x''),
            Assign (Attr Self ''y'') (Name ''y'')]],
      Class ''MutablePoint'' [''ImmutablePoint'']
        [Method ''set_x'' [''self'', ''x'']
           [Assign (Attr Self ''x'') (Name ''x'')],
         Method ''set_y'' [''self'', ''y'']
           [Assign (Attr Self ''y'') (Name ''y'')]]]"

definition talk_LSP_S3 :: "item list" where
  "talk_LSP_S3 =
     [Class ''Point'' [''object'']
        [Method ''__init__'' [''self'', ''x'', ''y'']
           [Assign (Attr Self ''x'') (Name ''x''),
            Assign (Attr Self ''y'') (Name ''y'')]],
      Class ''ImmutablePoint'' [''Point''] [],
      Class ''MutablePoint'' [''Point'']
        [Method ''set_x'' [''self'', ''x'']
           [Assign (Attr Self ''x'') (Name ''x'')],
         Method ''set_y'' [''self'', ''y'']
           [Assign (Attr Self ''y'') (Name ''y'')]]]"

definition talk_ISP_P1 :: "item list" where
  "talk_ISP_P1 =
     [Class ''Charger'' [''object'']
        [Method ''charge_usb1'' [''self'']
           [Expr (Call (Attr (Name ''IOUSB1'') ''connect'') [Name ''phone''])],
         Method ''charge_usb2'' [''self'']
           [Expr (Call (Attr (Name ''IOUSB2'') ''connect'') [Name ''phone''])],
         Method ''charge_apple'' [''self'']
           [Expr (Call (Attr (Name ''IOAPPLE'') ''connect'') [Name ''phone''])]],
      Class ''AndroidCharger'' [''Charger''] [],
      Class ''AppleCharger'' [''Charger''] []]"

definition talk_ISP_S1 :: "item list" where
  "talk_ISP_S1 =
     [Class ''Charger'' [''object'']
        [Method ''connect'' [''self''] [Pass],
         Method ''disconnect'' [''self''] [Pass],
         Method ''charge'' [''self''] [Pass]],
      Class ''AndroidCharger'' [''Charger'']
        [Method ''connect'' [''self'']
           [Expr (Call (Attr (Name ''IOUSB2'') ''connect'') [Name ''phone''])]],
      Class ''AppleCharger'' [''Charger'']
        [Method ''connect'' [''self'']
           [Expr (Call (Attr (Name ''IOAPPLE'') ''connect'') [Name ''phone''])]]]"

definition talk_ISP_P2 :: "item list" where
  "talk_ISP_P2 =
     [Class ''CoffeeMachine'' [''object'']
        [Method ''brew_filter_coffee'' [''self''] [Pass],
         Method ''add_ground_coffee'' [''self''] [Pass],
         Method ''brew_espresso'' [''self''] [Pass]],
      Class ''BasicCoffeeMachine'' [''CoffeeMachine''] [],
      Class ''EspressoMachine'' [''CoffeeMachine''] []]"

definition talk_ISP_S2 :: "item list" where
  "talk_ISP_S2 =
     [Class ''CoffeeMachine'' [''object'']
        [Method ''add_ground_coffee'' [''self''] [Pass]],
      Class ''FilterCoffeeMachine'' [''CoffeeMachine'']
        [Method ''brew_filter_coffee'' [''self''] [Pass]],
      Class ''EspressoCoffeeMachine'' [''CoffeeMachine'']
        [Method ''brew_espresso'' [''self''] [Pass]],
      Class ''BasicCoffeeMachine'' [''FilterCoffeeMachine''] [],
      Class ''EspressoMachine'' [''EspressoCoffeeMachine''] []]"

definition talk_DIP_P1 :: "item list" where
  "talk_DIP_P1 =
     [Class ''CopyProgram'' [''object'']
        [Attribute ''devices''
           (Dict [(Str ''printer'', Name ''Printer''), (Str ''disk'', Name ''Disk'')]),
         Method ''__init__'' [''self'', ''device'']
           [Assign (Attr Self ''device'') (Name ''device'')],
         Method ''copy'' [''self'']
           [With (Call (Name ''ReadKeyboard'') []) ''c''
              [IfElse (BinOp (Attr Self ''device'') Eq
                     (Call (Attr (Attr Self ''devices'') ''get'') [Str ''printer'']))
                 [Expr (Call (Name ''WritePrinter'') [Name ''c''])]
                 [Expr (Call (Name ''WriteDisk'') [Name ''c''])]]]]]"

definition talk_DIP_S1 :: "item list" where
  "talk_DIP_S1 =
     [ImportFrom ''abc'' ''ABC'',
      Class ''Reader'' [''ABC''] [],
      Class ''Writer'' [''ABC''] [],
      Class ''KeyboardReader'' [''object''] [],
      Class ''PrinterWriter'' [''object''] [],
      Class ''CopyProgram'' [''object'']
        [Method ''copy'' [''self'', ''reader'', ''writer'']
           [With (Call (Name ''reader'') []) ''c''
              [Expr (Call (Name ''writer'') [Name ''c''])]]]]"

definition talk_DIP_P2 :: "item list" where
  "talk_DIP_P2 =
     [Class ''Lamp'' [''object'']
        [Method ''turn_on'' [''self''] [Pass],
         Method ''turn_off'' [''self''] [Pass]],
      Class ''Button'' [''object'']
        [Method ''__init__'' [''self'', ''lamp'']
           [Assign (Attr Self ''lamp'') (Name ''lamp'')],
         Method ''get_physical_state'' [''self''] [Pass],
         Method ''detect'' [''self'']
           [Assign (Name ''button_on'') (Call (Attr Self ''get_physical_state'') []),
            IfElse (Name ''button_on'')
              [Expr (Call (Attr (Attr Self ''lamp'') ''turn_on'') [])]
              [Expr (Call (Attr (Attr Self ''lamp'') ''turn_off'') [])]]]]"

definition talk_DIP_S2 :: "item list" where
  "talk_DIP_S2 =
     [ImportFrom ''abc'' ''ABC'',
      Class ''ButtonClient'' [''ABC'']
        [Method ''turn_on'' [''self''] [Pass],
         Method ''turn_off'' [''self''] [Pass]],
      Class ''Button'' [''object'']
        [Method ''__init__'' [''self'', ''button_client'']
           [Assign (Attr Self ''button_client'') (Name ''button_client'')],
         Method ''detect'' [''self'']
           [Assign (Name ''button_on'') (Call (Attr Self ''get_state'') []),
            IfElse (Name ''button_on'')
              [Expr (Call (Attr (Attr Self ''button_client'') ''turn_on'') [])]
              [Expr (Call (Attr (Attr Self ''button_client'') ''turn_off'') [])]],
         Method ''get_state'' [''self''] [Pass]],
      Class ''Lamp'' [''ButtonClient''] [],
      Class ''ButtonImp'' [''object''] []]"

definition talk_py :: "(string \<times> item list) list" where
  "talk_py =
     [(''SRP PROBLEM 1'', talk_SRP_P1),
      (''SRP SOLUTION 1'', talk_SRP_S1),
      (''SRP PROBLEM 2'', talk_SRP_P2),
      (''SRP SOLUTION 2'', talk_SRP_S2),
      (''OCP PROBLEM 1'', talk_OCP_P1),
      (''OCP SOLUTION 1'', talk_OCP_S1),
      (''OCP PROBLEM 2'', talk_OCP_P2),
      (''OCP SOLUTION 2'', talk_OCP_S2),
      (''OCP PROBLEM 3'', talk_OCP_P3),
      (''OCP SOLUTION 3'', talk_OCP_S3),
      (''LSP PROBLEM 1'', talk_LSP_P1),
      (''LSP SOLUTION 1'', talk_LSP_S1),
      (''LSP PROBLEM 2'', talk_LSP_P2),
      (''LSP SOLUTION 2'', talk_LSP_S2),
      (''LSP PROBLEM 3'', talk_LSP_P3),
      (''LSP SOLUTION 3'', talk_LSP_S3),
      (''ISP PROBLEM 1'', talk_ISP_P1),
      (''ISP SOLUTION 1'', talk_ISP_S1),
      (''ISP PROBLEM 2'', talk_ISP_P2),
      (''ISP SOLUTION 2'', talk_ISP_S2),
      (''DIP PROBLEM 1'', talk_DIP_P1),
      (''DIP SOLUTION 1'', talk_DIP_S1),
      (''DIP PROBLEM 2'', talk_DIP_P2),
      (''DIP SOLUTION 2'', talk_DIP_S2)]"

subsection \<open>Reading the transcription\<close>

text \<open>The name a top-level statement binds in the module.\<close>

fun item_name :: "item \<Rightarrow> string" where
  "item_name (Class n bases members) = n"
| "item_name (Function n ps b) = n"
| "item_name (ImportFrom m n) = n"

definition bound_names :: "(string \<times> item list) list \<Rightarrow> string list" where
  "bound_names file = map item_name (concat (map snd file))"



text \<open>The methods of a class, and of a file: heading, class, method, body.\<close>

fun member_methods :: "member \<Rightarrow> (string \<times> stmt list) list" where
  "member_methods (Method m ps b) = [(m, b)]"
| "member_methods (Attribute a e) = []"

fun item_methods :: "item \<Rightarrow> (string \<times> string \<times> stmt list) list" where
  "item_methods (Class c bases members) =
     map (\<lambda>(m, b). (c, m, b)) (concat (map member_methods members))"
| "item_methods _ = []"

definition snippet_methods ::
  "string \<times> item list \<Rightarrow> (string \<times> string \<times> string \<times> stmt list) list" where
  "snippet_methods sn = map (\<lambda>(c, m, b). (fst sn, c, m, b)) (concat (map item_methods (snd sn)))"

definition file_methods ::
  "(string \<times> item list) list \<Rightarrow> (string \<times> string \<times> string \<times> stmt list) list" where
  "file_methods file = concat (map snippet_methods file)"

definition method_body ::
  "(string \<times> item list) list \<Rightarrow> string \<Rightarrow> string \<Rightarrow> string \<Rightarrow> stmt list option" where
  "method_body file h c m =
     map_option (\<lambda>(h', c', m', b). b)
       (find (\<lambda>(h', c', m', b). h' = h \<and> c' = c \<and> m' = m) (file_methods file))"

text \<open>
  The three shapes of a method body: a no-op, a single return of an arithmetic
  expression over the fields of \<^verbatim>\<open>self\<close>, a single assignment to a field of \<^verbatim>\<open>self\<close>.
\<close>

fun field_arith :: "expr \<Rightarrow> bool" where
  "field_arith (Attr (Name s) f) = (s = ''self'')"
| "field_arith (Num n) = True"
| "field_arith (BinOp a op b) = (op \<noteq> Eq \<and> field_arith a \<and> field_arith b)"
| "field_arith _ = False"

fun trivial_body :: "stmt list \<Rightarrow> bool" where
  "trivial_body [Pass] = True"
| "trivial_body [Return e] = field_arith e"
| "trivial_body [Assign (Attr (Name s) f) v] = (s = ''self'')"
| "trivial_body _ = False"

text \<open>
  A wider shape: one statement that is \<^verbatim>\<open>pass\<close>, a return of any expression, an
  assignment to a field of \<^verbatim>\<open>self\<close>, or a call.
\<close>

fun single_simple :: "stmt list \<Rightarrow> bool" where
  "single_simple [Pass] = True"
| "single_simple [Return e] = True"
| "single_simple [Assign (Attr (Name s) f) v] = (s = ''self'')"
| "single_simple [Expr (Call f args)] = True"
| "single_simple _ = False"

text \<open>Whether a statement contains a conditional, and whether it is a compound one.\<close>

fun branches :: "stmt \<Rightarrow> bool" where
  "branches (IfElse c a b) = True"
| "branches (With e x b) = list_ex branches b"
| "branches (For x e b) = list_ex branches b"
| "branches (Malformed s) = branches s"
| "branches _ = False"

fun compound :: "stmt \<Rightarrow> bool" where
  "compound (IfElse c a b) = True"
| "compound (With e x b) = True"
| "compound (For x e b) = True"
| "compound (Malformed s) = True"
| "compound _ = False"

text \<open>
  The methods of the two files that are not of the wider shape, by heading, class and
  method.
\<close>

definition solid_compound_methods :: "(string \<times> string \<times> string) list" where
  "solid_compound_methods =
     [(''OCP PROBLEM 1'', ''Operation'', ''__init__''),
      (''OCP PROBLEM 1'', ''BasicCalculator'', ''calculate''),
      (''OCP SOLUTION 1'', ''Operation'', ''__init__''),
      (''OCP PROBLEM 2'', ''ReportGenerator'', ''print''),
      (''LSP PROBLEM 2'', ''ProjectTask'', ''close''),
      (''DIP PROBLEM 1'', ''CopyProgram'', ''copy''),
      (''DIP SOLUTION 1'', ''CopyProgram'', ''copy''),
      (''DIP PROBLEM 2'', ''Button'', ''detect''),
      (''DIP SOLUTION 2'', ''Button'', ''detect'')]"

definition talk_compound_methods :: "(string \<times> string \<times> string) list" where
  "talk_compound_methods =
     [(''OCP PROBLEM 1'', ''Operation'', ''__init__''),
      (''OCP PROBLEM 1'', ''BasicCalculator'', ''calculate''),
      (''OCP SOLUTION 1'', ''Operation'', ''__init__''),
      (''OCP PROBLEM 2'', ''ReportGenerator'', ''print''),
      (''LSP PROBLEM 1'', ''Square'', ''set_width''),
      (''LSP PROBLEM 1'', ''Square'', ''set_height''),
      (''LSP PROBLEM 2'', ''ProjectTask'', ''close''),
      (''LSP SOLUTION 2'', ''Task'', ''close''),
      (''LSP PROBLEM 3'', ''ImmutablePoint'', ''__init__''),
      (''LSP SOLUTION 3'', ''Point'', ''__init__''),
      (''DIP PROBLEM 1'', ''CopyProgram'', ''copy''),
      (''DIP SOLUTION 1'', ''CopyProgram'', ''copy''),
      (''DIP PROBLEM 2'', ''Button'', ''detect''),
      (''DIP SOLUTION 2'', ''Button'', ''detect'')]"

definition shape_as_listed ::
  "(string \<times> string \<times> string) list \<Rightarrow> string \<times> string \<times> string \<times> stmt list \<Rightarrow> bool" where
  "shape_as_listed listed e =
     (case e of (h, c, m, b) \<Rightarrow>
        if (h, c, m) \<in> set listed
        then \<not> single_simple b \<and> (1 < length b \<or> list_ex compound b)
        else single_simple b)"

subsection \<open>The snippets of the two files, heading by heading\<close>








subsection \<open>The global names of a module\<close>

text \<open>
  A bare name in a method body is looked up among the names the module binds and then
  among Python's built-in names. The names a file binds at any moment of its execution
  are among those its top-level statements bind; what they denote does not matter for a
  name that is bound nowhere.
\<close>

definition python_builtins :: "string list" where
  "python_builtins =
     [''abs'', ''all'', ''any'', ''ascii'', ''bin'', ''bool'', ''breakpoint'', ''bytearray'',
      ''bytes'', ''callable'', ''chr'', ''classmethod'', ''compile'', ''complex'',
      ''delattr'', ''dict'', ''dir'', ''divmod'', ''enumerate'', ''eval'', ''exec'',
      ''filter'', ''float'', ''format'', ''frozenset'', ''getattr'', ''globals'',
      ''hasattr'', ''hash'', ''help'', ''hex'', ''id'', ''input'', ''int'', ''isinstance'',
      ''issubclass'', ''iter'', ''len'', ''list'', ''locals'', ''map'', ''max'',
      ''memoryview'', ''min'', ''next'', ''object'', ''oct'', ''open'', ''ord'', ''pow'',
      ''print'', ''property'', ''range'', ''repr'', ''reversed'', ''round'', ''set'',
      ''setattr'', ''slice'', ''sorted'', ''staticmethod'', ''str'', ''sum'', ''super'',
      ''tuple'', ''type'', ''vars'', ''zip'', ''__import__'',
      ''True'', ''False'', ''None'', ''NotImplemented'', ''Ellipsis'', ''__debug__'',
      ''copyright'', ''credits'', ''exit'', ''license'', ''quit'',
      ''BaseException'', ''Exception'', ''ArithmeticError'', ''AssertionError'',
      ''AttributeError'', ''BlockingIOError'', ''BrokenPipeError'', ''BufferError'',
      ''BytesWarning'', ''ChildProcessError'', ''ConnectionAbortedError'',
      ''ConnectionError'', ''ConnectionRefusedError'', ''ConnectionResetError'',
      ''DeprecationWarning'', ''EOFError'', ''EnvironmentError'', ''FileExistsError'',
      ''FileNotFoundError'', ''FloatingPointError'', ''FutureWarning'', ''GeneratorExit'',
      ''IOError'', ''ImportError'', ''ImportWarning'', ''IndentationError'', ''IndexError'',
      ''InterruptedError'', ''IsADirectoryError'', ''KeyError'', ''KeyboardInterrupt'',
      ''LookupError'', ''MemoryError'', ''ModuleNotFoundError'', ''NameError'',
      ''NotADirectoryError'', ''NotImplementedError'', ''OSError'', ''OverflowError'',
      ''PendingDeprecationWarning'', ''PermissionError'', ''ProcessLookupError'',
      ''RecursionError'', ''ReferenceError'', ''ResourceWarning'', ''RuntimeError'',
      ''RuntimeWarning'', ''StopAsyncIteration'', ''StopIteration'', ''SyntaxError'',
      ''SyntaxWarning'', ''SystemError'', ''SystemExit'', ''TabError'', ''TimeoutError'',
      ''TypeError'', ''UnboundLocalError'', ''UnicodeDecodeError'', ''UnicodeEncodeError'',
      ''UnicodeError'', ''UnicodeTranslateError'', ''UnicodeWarning'', ''UserWarning'',
      ''ValueError'', ''Warning'', ''ZeroDivisionError'']"

definition module_env :: "string list \<Rightarrow> (string \<Rightarrow> 'a) \<Rightarrow> string \<rightharpoonup> 'a" where
  "module_env names den n = (if n \<in> set names then Some (den n) else None)"

definition solid_globals :: "(string \<Rightarrow> 's callable) \<Rightarrow> 's genv" where
  "solid_globals den = module_env (bound_names solid_py @ python_builtins) den"

definition talk_globals :: "(string \<Rightarrow> 's callable) \<Rightarrow> 's genv" where
  "talk_globals den = module_env (bound_names talk_py @ python_builtins) den"




text \<open>A field that holds a number: an integer, or a boolean read as 0 or 1.\<close>

definition has_number :: "obj \<Rightarrow> string \<Rightarrow> int \<Rightarrow> bool" where
  "has_number self n i = (case self n of Some v \<Rightarrow> py_num v = Some i | None \<Rightarrow> False)"

section \<open>Properties\<close>

subsection \<open>Auxiliary facts\<close>

lemma py_eq_PStr: "py_eq v (PStr s) \<longleftrightarrow> v = PStr s"
  by (cases v) (auto simp: py_eq_def)

lemma getattr_status_total:
  "getattr Task_attrs self ''status'' = Inr (case self ''status'' of Some v \<Rightarrow> v | None \<Rightarrow> PNone)"
  by (simp add: getattr_def Task_attrs_def split: option.splits)

lemma expr_stmt_Task_close: "expr_stmt (Task_close self) = Task_close self"
  by (simp add: expr_stmt_def Task_close_def)

lemmas solid_snippet_defs =
  solid_SRP_P1_def solid_SRP_S1_def solid_OCP_P1_def solid_OCP_S1_def solid_OCP_P2_def
  solid_OCP_S2_def solid_LSP_P1_def solid_LSP_S1_def solid_LSP_P2_def solid_ISP_P1_def
  solid_ISP_S1_def solid_ISP_P2_def solid_ISP_S2_def solid_DIP_P1_def solid_DIP_S1_def
  solid_DIP_P2_def solid_DIP_S2_def

lemmas talk_snippet_defs =
  talk_SRP_P1_def talk_SRP_S1_def talk_SRP_P2_def talk_SRP_S2_def talk_OCP_P1_def
  talk_OCP_S1_def talk_OCP_P2_def talk_OCP_S2_def talk_OCP_P3_def talk_OCP_S3_def
  talk_LSP_P1_def talk_LSP_S1_def talk_LSP_P2_def talk_LSP_S2_def talk_LSP_P3_def
  talk_LSP_S3_def talk_ISP_P1_def talk_ISP_S1_def talk_ISP_P2_def talk_ISP_S2_def
  talk_DIP_P1_def talk_DIP_S1_def talk_DIP_P2_def talk_DIP_S2_def

text \<open>
  None of the bare names the methods call is bound by either module or is a built-in.
\<close>

lemma solid_unbound:
  "solid_globals den ''ReadKeyboard'' = None"
  "solid_globals den ''WritePrinter'' = None"
  "solid_globals den ''WriteDisk'' = None"
  by (simp_all add: solid_globals_def module_env_def bound_names_def solid_py_def
      python_builtins_def solid_snippet_defs)

lemma class_statement_names_unbound:
  "solid_globals den ''Calculator'' = None"
  "solid_globals den ''Disk'' = None"
  "talk_globals den ''Calculator'' = None"
  "talk_globals den ''Disk'' = None"
  by (simp_all add: solid_globals_def talk_globals_def module_env_def bound_names_def
      solid_py_def talk_py_def python_builtins_def solid_snippet_defs talk_snippet_defs)

lemma talk_unbound:
  "talk_globals den ''ReadKeyboard'' = None"
  "talk_globals den ''WritePrinter'' = None"
  "talk_globals den ''WriteDisk'' = None"
  "talk_globals den ''set_height'' = None"
  "talk_globals den ''set_width'' = None"
  by (simp_all add: talk_globals_def module_env_def bound_names_def talk_py_def
      python_builtins_def talk_snippet_defs)

lemma bind2_numbers:
  assumes "has_number self a i" and "has_number self b j"
  shows "bind2 (getattr cls self a) (getattr cls self b) py_sub = Inr (PInt (i - j))"
    and "bind2 (getattr cls self a) (getattr cls self b) py_add = Inr (PInt (i + j))"
  using assms
  by (auto simp: has_number_def getattr_def bind2_def py_sub_def py_add_def split: option.splits)

lemma times_two:
  assumes "has_number self a i"
  shows "bind2 (getattr cls self a) (Inr (PInt 2)) py_mul = Inr (PInt (i * 2))"
  using assms
  by (auto simp: has_number_def getattr_def bind2_def py_mul_def split: option.splits)

subsection \<open>The claims\<close>

text \<open>
  C1, as stated: every method body is a no-op, a single return of an arithmetic
  expression over the object's fields, or a single field assignment, and no method
  contains conditional branching or several steps. It fails: \<^verbatim>\<open>Button.detect\<close>
  (\<^verbatim>\<open>talk.py\<close> 559-564) is an assignment followed by a conditional, and
  \<^verbatim>\<open>Square.set_width\<close> (\<^verbatim>\<open>talk.py\<close> 288-290) is an assignment followed by a call.
\<close>

theorem Button_detect_not_trivial:
  "method_body talk_py ''DIP SOLUTION 2'' ''Button'' ''detect'' =
     Some [Assign (Name ''button_on'') (Call (Attr Self ''get_state'') []),
           IfElse (Name ''button_on'')
             [Expr (Call (Attr (Attr Self ''button_client'') ''turn_on'') [])]
             [Expr (Call (Attr (Attr Self ''button_client'') ''turn_off'') [])]] \<and>
   \<not> trivial_body
       [Assign (Name ''button_on'') (Call (Attr Self ''get_state'') []),
        IfElse (Name ''button_on'')
          [Expr (Call (Attr (Attr Self ''button_client'') ''turn_on'') [])]
          [Expr (Call (Attr (Attr Self ''button_client'') ''turn_off'') [])]] \<and>
   list_ex branches
       [Assign (Name ''button_on'') (Call (Attr Self ''get_state'') []),
        IfElse (Name ''button_on'')
          [Expr (Call (Attr (Attr Self ''button_client'') ''turn_on'') [])]
          [Expr (Call (Attr (Attr Self ''button_client'') ''turn_off'') [])]] \<and>
   method_body talk_py ''LSP PROBLEM 1'' ''Square'' ''set_width'' =
     Some [Assign (Attr Self ''width'') (Name ''w''),
           Expr (Call (Name ''set_height'') [Name ''w''])] \<and>
   \<not> trivial_body
       [Assign (Attr Self ''width'') (Name ''w''),
        Expr (Call (Name ''set_height'') [Name ''w''])]"
  by code_simp

text \<open>
  C1, amended: in both files every method body is a single statement that is \<^verbatim>\<open>pass\<close>,
  a return of an expression, an assignment to a field of \<^verbatim>\<open>self\<close> or a call, except for
  the methods listed in \<open>solid_compound_methods\<close> and \<open>talk_compound_methods\<close>; each of
  those has several statements or a compound statement (a conditional, a
  \<^verbatim>\<open>with\<close> block, or lines that do not parse).
\<close>

theorem method_bodies_simple_or_listed:
  "list_all (shape_as_listed solid_compound_methods) (file_methods solid_py) \<and>
   list_all (shape_as_listed talk_compound_methods) (file_methods talk_py)"
  by code_simp

text \<open>
  C3. \<^verbatim>\<open>ProjectTask.close\<close> of the problem version in \<^verbatim>\<open>talk.py\<close> raises exactly when the
  status is \<^verbatim>\<open>'STARTED'\<close>; when it raises, the exception is
  \<^verbatim>\<open>Exception("Cannot close Task")\<close> and the object is unchanged; when it does not, it
  does what \<^verbatim>\<open>Task.close\<close> does and the status is \<^verbatim>\<open>'CLOSED'\<close> afterwards.
\<close>

theorem ProjectTask_close_raises_iff_started:
  "((\<exists>e. fst (ProjectTask_close self) = Inl e) \<longleftrightarrow>
      getattr Task_attrs self ''status'' = Inr (PStr ''STARTED'')) \<and>
   ((\<exists>e. fst (ProjectTask_close self) = Inl e) \<longrightarrow>
      fst (ProjectTask_close self) = Inl (Exception ''Cannot close Task'') \<and>
      snd (ProjectTask_close self) = self) \<and>
   ((\<nexists>e. fst (ProjectTask_close self) = Inl e) \<longrightarrow>
      ProjectTask_close self = Task_close self \<and>
      getattr Task_attrs (snd (ProjectTask_close self)) ''status'' = Inr (PStr ''CLOSED''))"
proof -
  let ?st = "case self ''status'' of Some v \<Rightarrow> v | None \<Rightarrow> PNone"
  show ?thesis
  proof (cases "?st = PStr ''STARTED''")
    case True
    then have "ProjectTask_close self = (Inl (Exception ''Cannot close Task''), self)"
      by (simp add: ProjectTask_close_def getattr_status_total py_eq_PStr)
    with True show ?thesis
      by (simp add: getattr_status_total)
  next
    case False
    then have run: "ProjectTask_close self = Task_close self"
      by (simp add: ProjectTask_close_def getattr_status_total py_eq_PStr expr_stmt_Task_close)
    have "fst (Task_close self) = Inr PNone"
      by (simp add: Task_close_def)
    moreover have "getattr Task_attrs (snd (Task_close self)) ''status'' = Inr (PStr ''CLOSED'')"
      by (simp add: Task_close_def getattr_def)
    ultimately show ?thesis
      using False by (simp add: run getattr_status_total)
  qed
qed

theorem ProjectTask_close_raises_iff_started_witness:
  "ProjectTask_close [''status'' \<mapsto> PStr ''STARTED''] =
     (Inl (Exception ''Cannot close Task''), [''status'' \<mapsto> PStr ''STARTED'']) \<and>
   ProjectTask_close [''status'' \<mapsto> PStr ''OPEN''] =
     (Inr PNone, [''status'' \<mapsto> PStr ''CLOSED'']) \<and>
   getattr Task_attrs (snd (ProjectTask_close Map.empty)) ''status'' = Inr (PStr ''CLOSED'')"
proof -
  have started: "getattr Task_attrs [''status'' \<mapsto> PStr ''STARTED''] ''status'' = Inr (PStr ''STARTED'')"
    by (simp add: getattr_def)
  have "open": "getattr Task_attrs [''status'' \<mapsto> PStr ''OPEN''] ''status'' \<noteq> Inr (PStr ''STARTED'')"
    by (simp add: getattr_def)
  have none: "getattr Task_attrs Map.empty ''status'' \<noteq> Inr (PStr ''STARTED'')"
    by (simp add: getattr_def Task_attrs_def)
  have a: "ProjectTask_close [''status'' \<mapsto> PStr ''STARTED''] =
      (Inl (Exception ''Cannot close Task''), [''status'' \<mapsto> PStr ''STARTED''])"
    using ProjectTask_close_raises_iff_started [of "[''status'' \<mapsto> PStr ''STARTED'']"] started
    by (metis prod.collapse)
  have b: "ProjectTask_close [''status'' \<mapsto> PStr ''OPEN''] =
      (Inr PNone, [''status'' \<mapsto> PStr ''CLOSED''])"
    using ProjectTask_close_raises_iff_started [of "[''status'' \<mapsto> PStr ''OPEN'']"] "open"
    by (simp add: Task_close_def)
  have c: "getattr Task_attrs (snd (ProjectTask_close Map.empty)) ''status'' = Inr (PStr ''CLOSED'')"
    using ProjectTask_close_raises_iff_started [of Map.empty] none by simp
  from a b c show ?thesis by simp
qed

text \<open>
  C4. With numbers in the fields, \<^verbatim>\<open>Addition.peform_operation\<close> returns \<open>x + y\<close>,
  \<^verbatim>\<open>Subtraction.peform_operation\<close> returns \<open>x - y\<close>, \<^verbatim>\<open>Shape.get_perimeter\<close> returns
  \<open>2 * x + 2 * y\<close>, \<^verbatim>\<open>Quadrilateral.get_width\<close> returns \<open>x2 - x1\<close> and
  \<^verbatim>\<open>Quadrilateral.get_height\<close> returns \<open>y2 - y1\<close>; none of them changes the object.
\<close>

theorem arithmetic_stubs:
  assumes "has_number operation ''x'' x" and "has_number operation ''y'' y"
    and "has_number shape ''x'' sx" and "has_number shape ''y'' sy"
    and "has_number quad ''x1'' x1" and "has_number quad ''x2'' x2"
    and "has_number quad ''y1'' y1" and "has_number quad ''y2'' y2"
  shows "Addition_peform_operation operation = (Inr (PInt (x + y)), operation) \<and>
         Subtraction_peform_operation operation = (Inr (PInt (x - y)), operation) \<and>
         Shape_get_perimeter shape = (Inr (PInt (2 * sx + 2 * sy)), shape) \<and>
         Quadrilateral_get_width quad = (Inr (PInt (x2 - x1)), quad) \<and>
         Quadrilateral_get_height quad = (Inr (PInt (y2 - y1)), quad)"
proof -
  have "Addition_peform_operation operation = (Inr (PInt (x + y)), operation)"
    by (simp add: Addition_peform_operation_def bind2_numbers [OF assms(1,2)])
  moreover have "Subtraction_peform_operation operation = (Inr (PInt (x - y)), operation)"
    by (simp add: Subtraction_peform_operation_def bind2_numbers [OF assms(1,2)])
  moreover have "Shape_get_perimeter shape = (Inr (PInt (2 * sx + 2 * sy)), shape)"
    unfolding Shape_get_perimeter_def times_two [OF assms(3)] times_two [OF assms(4)]
    by (simp add: bind2_def py_add_def)
  moreover have "Quadrilateral_get_width quad = (Inr (PInt (x2 - x1)), quad)"
    by (simp add: Quadrilateral_get_width_def bind2_numbers [OF assms(6,5)])
  moreover have "Quadrilateral_get_height quad = (Inr (PInt (y2 - y1)), quad)"
    by (simp add: Quadrilateral_get_height_def bind2_numbers [OF assms(8,7)])
  ultimately show ?thesis by simp
qed

theorem arithmetic_stubs_witness:
  "Addition_peform_operation (snd (Operation_init Map.empty (PInt 7) (PInt 5))) =
     (Inr (PInt 12), [''x'' \<mapsto> PInt 7, ''y'' \<mapsto> PInt 5]) \<and>
   Subtraction_peform_operation (snd (Operation_init Map.empty (PInt 7) (PInt 5))) =
     (Inr (PInt 2), [''x'' \<mapsto> PInt 7, ''y'' \<mapsto> PInt 5]) \<and>
   Shape_get_perimeter [''x'' \<mapsto> PInt 3, ''y'' \<mapsto> PInt 4] =
     (Inr (PInt 14), [''x'' \<mapsto> PInt 3, ''y'' \<mapsto> PInt 4]) \<and>
   fst (Quadrilateral_get_width
          [''x1'' \<mapsto> PInt 10, ''x2'' \<mapsto> PInt 5, ''y1'' \<mapsto> PInt 6, ''y2'' \<mapsto> PInt 3]) =
     Inr (PInt (- 5)) \<and>
   fst (Quadrilateral_get_height
          [''x1'' \<mapsto> PInt 10, ''x2'' \<mapsto> PInt 5, ''y1'' \<mapsto> PInt 6, ''y2'' \<mapsto> PInt 3]) =
     Inr (PInt (- 3))"
  using arithmetic_stubs
    [of "snd (Operation_init Map.empty (PInt 7) (PInt 5))" 7 5
        "[''x'' \<mapsto> PInt 3, ''y'' \<mapsto> PInt 4]" 3 4
        "[''x1'' \<mapsto> PInt 10, ''x2'' \<mapsto> PInt 5, ''y1'' \<mapsto> PInt 6, ''y2'' \<mapsto> PInt 3]"
        10 5 6 3]
  by (simp add: has_number_def Operation_init_def)

text \<open>
  C5. \<^verbatim>\<open>Task.close\<close> of the problem version returns normally, sets the status
  field to \<^verbatim>\<open>'CLOSED'\<close> and leaves every other attribute of the object as it was.
\<close>

theorem Task_close_sets_status_only:
  "fst (Task_close self) = Inr PNone \<and>
   getattr Task_attrs (snd (Task_close self)) ''status'' = Inr (PStr ''CLOSED'') \<and>
   (\<forall>a. a \<noteq> ''status'' \<longrightarrow> snd (Task_close self) a = self a)"
  by (simp add: Task_close_def getattr_def)

theorem Task_close_sets_status_only_witness:
  "''owner'' \<noteq> ''status'' \<and>
   getattr Task_attrs
     (snd (Task_close [''owner'' \<mapsto> PStr ''ann'', ''status'' \<mapsto> PStr ''STARTED''])) ''status''
     = Inr (PStr ''CLOSED'') \<and>
   snd (Task_close [''owner'' \<mapsto> PStr ''ann'', ''status'' \<mapsto> PStr ''STARTED'']) ''owner''
     = Some (PStr ''ann'')"
  using Task_close_sets_status_only
    [of "[''owner'' \<mapsto> PStr ''ann'', ''status'' \<mapsto> PStr ''STARTED'']"]
  by simp

text \<open>
  C6. In both modules \<^verbatim>\<open>CopyProgram.copy\<close> of the problem version, on every instance
  and in every state of the world, raises \<^verbatim>\<open>NameError\<close> for \<^verbatim>\<open>ReadKeyboard\<close> and leaves
  the world as it was: no manager is created or entered and no device is written.
  \<^verbatim>\<open>WritePrinter\<close> and \<^verbatim>\<open>WriteDisk\<close> are unbound as well.
\<close>

theorem CopyProgram_copy_fails_on_undefined_name:
  "CopyProgram_copy (solid_globals den) p self s =
     (Inl (NameError ''ReadKeyboard''), s) \<and>
   CopyProgram_copy (talk_globals den) p self s =
     (Inl (NameError ''ReadKeyboard''), s) \<and>
   load_global (solid_globals den) ''WritePrinter'' = Inl (NameError ''WritePrinter'') \<and>
   load_global (solid_globals den) ''WriteDisk'' = Inl (NameError ''WriteDisk'') \<and>
   load_global (talk_globals den) ''WritePrinter'' = Inl (NameError ''WritePrinter'') \<and>
   load_global (talk_globals den) ''WriteDisk'' = Inl (NameError ''WriteDisk'')"
  by (simp add: CopyProgram_copy_def load_global_def solid_unbound talk_unbound)



text \<open>
  C8. \<^verbatim>\<open>Task.close\<close> of the solution version in \<^verbatim>\<open>talk.py\<close> never returns normally,
  whatever \<^verbatim>\<open>can_close\<close> the class of the object has. For the three classes of the
  snippet it raises \<^verbatim>\<open>Exception("Cannot close Task")\<close>; when \<^verbatim>\<open>can_close()\<close> is true the
  status has been set to \<^verbatim>\<open>'CLOSED'\<close> before the exception, and when it is false the
  object is unchanged.
\<close>

theorem Task_close_solution_always_raises:
  "(\<exists>e. fst (Task_close_solution can_close self) = Inl e) \<and>
   fst (close_of k self) = Inl (Exception ''Cannot close Task'') \<and>
   (\<forall>c. fst (can_close_of k self) = Inr c \<and> truthy c \<longrightarrow>
      snd (close_of k self) = self(''status'' \<mapsto> PStr ''CLOSED'')) \<and>
   (\<forall>c. fst (can_close_of k self) = Inr c \<and> \<not> truthy c \<longrightarrow>
      snd (close_of k self) = self)"
proof -
  have raises: "\<exists>e. fst (Task_close_solution can_close self) = Inl e"
    by (cases "can_close self") (auto simp: Task_close_solution_def split: sum.splits)
  have can: "can_close_of k self =
      (Inr (PBool (k = ProjectTask \<longrightarrow> getattr Task_attrs self ''status'' = Inr (PStr ''STARTED''))),
       self)"
    by (cases k)
      (simp_all add: Task_can_close_def ProjectTask_can_close_def getattr_status_total py_eq_PStr)
  show ?thesis
    using raises by (simp add: close_of_def Task_close_solution_def can)
qed

theorem Task_close_solution_always_raises_witness:
  "close_of ProjectTask [''status'' \<mapsto> PStr ''STARTED''] =
     (Inl (Exception ''Cannot close Task''), [''status'' \<mapsto> PStr ''CLOSED'']) \<and>
   close_of ProjectTask [''status'' \<mapsto> PStr ''OPEN''] =
     (Inl (Exception ''Cannot close Task''), [''status'' \<mapsto> PStr ''OPEN'']) \<and>
   close_of BasicTask Map.empty =
     (Inl (Exception ''Cannot close Task''), [''status'' \<mapsto> PStr ''CLOSED''])"
proof -
  have c1: "fst (can_close_of ProjectTask [''status'' \<mapsto> PStr ''STARTED'']) = Inr (PBool True)"
    by (simp add: ProjectTask_can_close_def getattr_def py_eq_def)
  have c2: "fst (can_close_of ProjectTask [''status'' \<mapsto> PStr ''OPEN'']) = Inr (PBool False)"
    by (simp add: ProjectTask_can_close_def getattr_def py_eq_def)
  have c3: "fst (can_close_of BasicTask Map.empty) = Inr (PBool True)"
    by (simp add: Task_can_close_def)
  have a: "close_of ProjectTask [''status'' \<mapsto> PStr ''STARTED''] =
      (Inl (Exception ''Cannot close Task''), [''status'' \<mapsto> PStr ''CLOSED''])"
    using Task_close_solution_always_raises
      [of Task_can_close "[''status'' \<mapsto> PStr ''STARTED'']" ProjectTask] c1
    by (simp add: prod_eq_iff)
  have b: "close_of ProjectTask [''status'' \<mapsto> PStr ''OPEN''] =
      (Inl (Exception ''Cannot close Task''), [''status'' \<mapsto> PStr ''OPEN''])"
    using Task_close_solution_always_raises
      [of Task_can_close "[''status'' \<mapsto> PStr ''OPEN'']" ProjectTask] c2
    by (simp add: prod_eq_iff)
  have c: "close_of BasicTask Map.empty =
      (Inl (Exception ''Cannot close Task''), [''status'' \<mapsto> PStr ''CLOSED''])"
    using Task_close_solution_always_raises [of Task_can_close Map.empty BasicTask] c3
    by (simp add: prod_eq_iff)
  from a b c show ?thesis by simp
qed

text \<open>
  C9. In \<^verbatim>\<open>talk.py\<close>, \<^verbatim>\<open>Square.set_width(w)\<close> assigns \<open>w\<close> to the width and then raises
  \<^verbatim>\<open>NameError\<close> for \<^verbatim>\<open>set_height\<close>, so the height is what it was; \<^verbatim>\<open>Square.set_height(h)\<close>
  assigns \<open>h\<close> to the height and then raises \<^verbatim>\<open>NameError\<close> for \<^verbatim>\<open>set_width\<close>, so the
  width is what it was.
\<close>

theorem Square_setters_raise_NameError:
  "Square_set_width (talk_globals den) self w =
     (Inl (NameError ''set_height''), self(''width'' \<mapsto> w)) \<and>
   getattr Rectangle_attrs (snd (Square_set_width (talk_globals den) self w)) ''height'' =
     getattr Rectangle_attrs self ''height'' \<and>
   Square_set_height (talk_globals den) self h =
     (Inl (NameError ''set_width''), self(''height'' \<mapsto> h)) \<and>
   getattr Rectangle_attrs (snd (Square_set_height (talk_globals den) self h)) ''width'' =
     getattr Rectangle_attrs self ''width''"
  by (simp add: Square_set_width_def Square_set_height_def load_global_def talk_unbound
      getattr_def)

text \<open>
  C10. In both versions of the button \<^verbatim>\<open>detect\<close> is the call of the client's
  \<^verbatim>\<open>turn_off\<close> and nothing else (an \<^verbatim>\<open>AttributeError\<close> if the client has no such
  method), and it does not depend on the client's \<^verbatim>\<open>turn_on\<close>.
\<close>

theorem Button_detect_turns_off:
  "Button_detect self s = expr_stmt (call_method (button_client self) ''turn_off'' [] s) \<and>
   Button_detect (self\<lparr>button_client := (button_client self)(''turn_on'' := t)\<rparr>) s =
     Button_detect self s \<and>
   LampButton_detect b s = expr_stmt (call_method (lamp b) ''turn_off'' [] s) \<and>
   LampButton_detect (b\<lparr>lamp := (lamp b)(''turn_on'' := t)\<rparr>) s = LampButton_detect b s"
  by (simp add: Button_detect_def Button_get_state_def LampButton_detect_def
      Button_get_physical_state_def call_method_def)

theorem Button_detect_turns_off_witness:
  "Button_detect \<lparr>button_client = recording_client\<rparr> [] = (Inr PNone, [''turn_off'']) \<and>
   LampButton_detect \<lparr>lamp = recording_client\<rparr> [] = (Inr PNone, [''turn_off''])"
  using Button_detect_turns_off
    [of "\<lparr>button_client = recording_client\<rparr>" "[]" None "\<lparr>lamp = recording_client\<rparr>"]
  by (simp add: recording_client_def call_method_def expr_stmt_def)

end
